theory Spec2Isabelle
  imports Main
begin

section \<open>Data model of App.js\<close>

text \<open>
  A row of the \<open>facts\<close> collection as the client receives it. The JavaScript object has
  the properties \<open>id\<close>, \<open>text\<close>, \<open>source\<close>, \<open>category\<close> and the three counters; the
  first four are prefixed with \<open>fact_\<close> here because \<open>id\<close> and \<open>text\<close> are taken in
  Isabelle. Identifiers and counters are integers (JavaScript numbers holding integers in
  the range where \<open>+ 1\<close> and \<open><\<close> are exact). A string is its list of code units, so
  \<open>length\<close> is what \<open>.length\<close> counts.
\<close>

record fact =
  fact_id :: int
  fact_text :: string
  fact_source :: string
  fact_category :: string
  votesInteresting :: int
  votesMindblowing :: int
  votesFalse :: int

text \<open>An entry of the \<open>CATEGORIES\<close> array (App.js, lines 6 to 15).\<close>

record category =
  name :: string
  color :: string

definition CATEGORIES :: "category list" where
  "CATEGORIES =
    [\<lparr>name = ''technology'', color = ''#3b82f6''\<rparr>,
     \<lparr>name = ''science'', color = ''#16a34a''\<rparr>,
     \<lparr>name = ''finance'', color = ''#ef4444''\<rparr>,
     \<lparr>name = ''society'', color = ''#eab308''\<rparr>,
     \<lparr>name = ''entertainment'', color = ''#db2777''\<rparr>,
     \<lparr>name = ''health'', color = ''#14b8a6''\<rparr>,
     \<lparr>name = ''history'', color = ''#f97316''\<rparr>,
     \<lparr>name = ''news'', color = ''#8b5cf6''\<rparr>]"

text \<open>
  An element of the visible list. The list is filled from the arrays the store returns;
  \<open>newFact[0]\<close> and \<open>updatedFact[0]\<close> read index 0 of such an array, which in JavaScript
  is \<open>undefined\<close> when the array is empty. \<open>None\<close> stands for \<open>undefined\<close>.
\<close>

type_synonym entry = "fact option"

definition first_row :: "fact list \<Rightarrow> entry" where
  "first_row rows = (case rows of [] \<Rightarrow> None | r # _ \<Rightarrow> Some r)"

text \<open>Reading a property of \<open>undefined\<close> throws a \<open>TypeError\<close>.\<close>

datatype js_error = TypeError

text \<open>
  \<open>Array.prototype.map\<close> with a callback that may throw: the first exception leaves the
  loop and no array is produced.
\<close>

fun js_map :: "('a \<Rightarrow> js_error + 'b) \<Rightarrow> 'a list \<Rightarrow> js_error + 'b list" where
  "js_map f [] = Inr []"
| "js_map f (x # xs) =
     (case f x of
        Inl e \<Rightarrow> Inl e
      | Inr y \<Rightarrow> (case js_map f xs of Inl e \<Rightarrow> Inl e | Inr ys \<Rightarrow> Inr (y # ys)))"

section \<open>Rendering a fact (component Fact, lines 281 to 343)\<close>

text \<open>
  What the component puts on the page: whether the DISPUTED span is present, the text,
  the link target, the tag with its background colour, and the three numbers on the vote
  buttons.
\<close>

record fact_view =
  disputed_span :: bool
  shown_text :: string
  href :: string
  backgroundColor :: string
  tag :: string
  button_counts :: "int \<times> int \<times> int"

definition isDisputed :: "fact \<Rightarrow> bool" where
  "isDisputed f = (votesInteresting f + votesMindblowing f < votesFalse f)"

text \<open>
  \<open>CATEGORIES.find(...)\<close> gives \<open>undefined\<close> when no entry has the fact's category, and
  \<open>.color\<close> is read from the result with no guard.
\<close>

definition Fact :: "fact \<Rightarrow> js_error + fact_view" where
  "Fact f =
     (case List.find (\<lambda>cat. name cat = fact_category f) CATEGORIES of
        None \<Rightarrow> Inl TypeError
      | Some cat \<Rightarrow>
          Inr \<lparr>disputed_span = isDisputed f,
               shown_text = fact_text f,
               href = fact_source f,
               backgroundColor = color cat,
               tag = fact_category f,
               button_counts =
                 (votesInteresting f, votesMindblowing f, votesFalse f)\<rparr>)"

text \<open>
  Component FactList (lines 260 to 279): a message for the empty list, otherwise one
  Fact per entry; \<open>key={fact.id}\<close> reads a property of the entry, which throws on
  \<open>undefined\<close>.
\<close>

datatype list_view = NoFactsMessage | Items "fact_view list" nat

definition FactList :: "entry list \<Rightarrow> js_error + list_view" where
  "FactList facts =
     (if length facts = 0 then Inr NoFactsMessage
      else
        (case js_map (\<lambda>e. case e of None \<Rightarrow> Inl TypeError | Some f \<Rightarrow> Fact f) facts of
           Inl e \<Rightarrow> Inl e
         | Inr views \<Rightarrow> Inr (Items views (length facts))))"

section \<open>Requests to the remote store\<close>

text \<open>
  The three column names \<open>handleVote\<close> is called with (lines 326, 332 and 337), and
  \<open>fact[columnName]\<close>.
\<close>

datatype counter = VotesInteresting | VotesMindblowing | VotesFalse

fun counter_value :: "counter \<Rightarrow> fact \<Rightarrow> int" where
  "counter_value VotesInteresting f = votesInteresting f"
| "counter_value VotesMindblowing f = votesMindblowing f"
| "counter_value VotesFalse f = votesFalse f"

text \<open>
  A query as the client library's builder assembles it: \<open>supabase.from(t)\<close> followed by
  \<open>.select('*')\<close>, by \<open>.insert(rows).select()\<close> or by \<open>.update({[c]: v}) ... .select()\<close>,
  then \<open>.eq(column, value)\<close>, \<open>.order(column, {ascending})\<close> and \<open>.limit(n)\<close>. The code
  filters on the columns \<open>category\<close> and \<open>id\<close> only.
\<close>

record new_row =
  new_text :: string
  new_source :: string
  new_category :: string

datatype action =
    SelectAll
  | InsertReturning "new_row list"
  | UpdateReturning counter int

datatype predicate = EqCategory string | EqId int

record query =
  q_table :: string
  q_action :: action
  q_filters :: "predicate list"
  q_order :: "(counter \<times> bool) option"
  q_limit :: "nat option"

definition from_table :: "string \<Rightarrow> action \<Rightarrow> query" where
  "from_table t a =
     \<lparr>q_table = t, q_action = a, q_filters = [], q_order = None, q_limit = None\<rparr>"

definition eq_filter :: "predicate \<Rightarrow> query \<Rightarrow> query" where
  "eq_filter p q = q\<lparr>q_filters := q_filters q @ [p]\<rparr>"

definition order_by :: "counter \<Rightarrow> bool \<Rightarrow> query \<Rightarrow> query" where
  "order_by c ascending q = q\<lparr>q_order := Some (c, ascending)\<rparr>"

definition limit_to :: "nat \<Rightarrow> query \<Rightarrow> query" where
  "limit_to n q = q\<lparr>q_limit := Some n\<rparr>"

text \<open>
  What an awaited query resolves to: \<open>{data, error}\<close> with \<open>error\<close> set (\<open>Inl\<close>) or with
  the array of rows in \<open>data\<close> (\<open>Inr\<close>). The code only tests \<open>!error\<close>.
\<close>

datatype remote_error = NetworkError | ServiceError string

type_synonym reply = "remote_error + fact list"

section \<open>The remote store\<close>

text \<open>
  Modelled from the spec: the hosted database service behind \<open>./supabase\<close> is not part
  of the sources. Section 6 of the specification gives its three request shapes: a read
  with optional equality filter, ordering by a counter and a limit, returning an array of
  rows; an insert of rows with \<open>{text, source, category}\<close>, the store assigning the
  identifier and the counters starting at zero, returning the inserted rows; an update of
  one counter on the rows matching an identifier, returning the updated rows. The store
  is the list of rows of the \<open>facts\<close> collection.
\<close>

fun matches :: "predicate \<Rightarrow> fact \<Rightarrow> bool" where
  "matches (EqCategory c) r = (fact_category r = c)"
| "matches (EqId i) r = (fact_id r = i)"

definition selected :: "query \<Rightarrow> fact \<Rightarrow> bool" where
  "selected q r = list_all (\<lambda>p. matches p r) (q_filters q)"

definition ordered :: "query \<Rightarrow> fact list \<Rightarrow> fact list" where
  "ordered q rows =
     (case q_order q of
        None \<Rightarrow> rows
      | Some (c, ascending) \<Rightarrow>
          if ascending then sort_key (counter_value c) rows
          else rev (sort_key (counter_value c) rows))"

definition limited :: "query \<Rightarrow> fact list \<Rightarrow> fact list" where
  "limited q rows = (case q_limit q of None \<Rightarrow> rows | Some n \<Rightarrow> take n rows)"

fun set_counter :: "counter \<Rightarrow> int \<Rightarrow> fact \<Rightarrow> fact" where
  "set_counter VotesInteresting v r = r\<lparr>votesInteresting := v\<rparr>"
| "set_counter VotesMindblowing v r = r\<lparr>votesMindblowing := v\<rparr>"
| "set_counter VotesFalse v r = r\<lparr>votesFalse := v\<rparr>"

definition next_id :: "fact list \<Rightarrow> int" where
  "next_id db = fold max (map fact_id db) 0 + 1"

fun stored :: "int \<Rightarrow> new_row list \<Rightarrow> fact list" where
  "stored i [] = []"
| "stored i (n # ns) =
     \<lparr>fact_id = i, fact_text = new_text n, fact_source = new_source n,
      fact_category = new_category n, votesInteresting = 0, votesMindblowing = 0,
      votesFalse = 0\<rparr> # stored (i + 1) ns"

text \<open>
  Modelled from the spec: the store executing one query on its rows, giving the rows
  afterwards and the reply. A read filters, orders and limits and leaves the rows as
  they are; an insert appends the new rows; an update overwrites the named counter of
  the matching rows with the value sent. A collection other than \<open>facts\<close> is an error.
\<close>

definition run :: "query \<Rightarrow> fact list \<Rightarrow> fact list \<times> reply" where
  "run q db =
     (if q_table q \<noteq> ''facts'' then (db, Inl (ServiceError ''unknown collection''))
      else
        (case q_action q of
           SelectAll \<Rightarrow> (db, Inr (limited q (ordered q (filter (selected q) db))))
         | InsertReturning ns \<Rightarrow>
             (let rows = stored (next_id db) ns in (db @ rows, Inr rows))
         | UpdateReturning c v \<Rightarrow>
             (map (\<lambda>r. if selected q r then set_counter c v r else r) db,
              Inr (map (set_counter c v) (filter (selected q) db)))))"

section \<open>Component App: state and feed fetch (lines 17 to 64)\<close>

text \<open>
  The four state variables of \<open>App\<close>, and the notifications raised with \<open>alert\<close>, kept
  as a log so that raising one is visible in the state.
\<close>

record app_state =
  showForm :: bool
  facts :: "entry list"
  isLoading :: bool
  currentCategory :: string
  alerts :: "string list"

definition getFacts_query :: "string \<Rightarrow> query" where
  "getFacts_query category =
     (let query = from_table ''facts'' SelectAll;
          query = (if category \<noteq> ''all'' then eq_filter (EqCategory category) query
                   else query)
      in limit_to 100 (order_by VotesInteresting True query))"

text \<open>
  \<open>getFacts\<close> up to its \<open>await\<close>: the loading flag is set and the query is sent. The
  part after the \<open>await\<close> runs when the reply arrives, on the state of that moment.
\<close>

definition getFacts_begin :: "app_state \<Rightarrow> app_state \<times> query" where
  "getFacts_begin st = (st\<lparr>isLoading := True\<rparr>, getFacts_query (currentCategory st))"

definition getFacts_resolve :: "reply \<Rightarrow> app_state \<Rightarrow> app_state" where
  "getFacts_resolve rep st =
     (let st1 =
        (case rep of
           Inr rows \<Rightarrow> st\<lparr>facts := map Some rows\<rparr>
         | Inl error \<Rightarrow> st\<lparr>alerts := alerts st @ [''There was a problem getting data'']\<rparr>)
      in st1\<lparr>isLoading := False\<rparr>)"

definition getFacts :: "(query \<Rightarrow> reply) \<Rightarrow> app_state \<Rightarrow> app_state" where
  "getFacts remote st =
     (case getFacts_begin st of (st1, q) \<Rightarrow> getFacts_resolve (remote q) st1)"

section \<open>Component NewFactForm: submission (lines 144 to 193)\<close>

text \<open>
  \<open>new URL(string)\<close> is the platform's parser: it returns a URL object or throws a
  \<open>TypeError\<close>. It is a parameter of the model; only \<open>protocol\<close> is read from its result.
\<close>

record url =
  protocol :: string

definition isValidHttpUrl :: "(string \<Rightarrow> js_error + url) \<Rightarrow> string \<Rightarrow> bool" where
  "isValidHttpUrl new_URL s =
     (case new_URL s of
        Inl _ \<Rightarrow> False
      | Inr u \<Rightarrow> protocol u = ''http:'' \<or> protocol u = ''https:'')"

record form_state =
  form_text :: string
  form_source :: string
  form_category :: string
  isUploading :: bool

text \<open>
  \<open>handleSubmit\<close> up to its \<open>await\<close>: the check of line 170 (a string is truthy when
  it is not empty), then the uploading flag and the insert. \<open>None\<close>: nothing is sent.
\<close>

definition handleSubmit_begin ::
  "(string \<Rightarrow> js_error + url) \<Rightarrow> form_state \<Rightarrow> form_state \<times> query option" where
  "handleSubmit_begin new_URL form =
     (if form_text form \<noteq> [] \<and> isValidHttpUrl new_URL (form_source form)
         \<and> form_category form \<noteq> [] \<and> length (form_text form) \<le> 1000
      then (form\<lparr>isUploading := True\<rparr>,
            Some (from_table ''facts''
                    (InsertReturning
                       [\<lparr>new_text = form_text form, new_source = form_source form,
                         new_category = form_category form\<rparr>])))
      else (form, None))"

definition handleSubmit_resolve ::
  "reply \<Rightarrow> form_state \<times> app_state \<Rightarrow> form_state \<times> app_state" where
  "handleSubmit_resolve rep s =
     (case s of (form, app) \<Rightarrow>
        (form\<lparr>isUploading := False, form_text := [], form_source := [],
              form_category := []\<rparr>,
         (case rep of
            Inr newFact \<Rightarrow> app\<lparr>facts := first_row newFact # facts app\<rparr>
          | Inl error \<Rightarrow> app)\<lparr>showForm := False\<rparr>))"

definition handleSubmit ::
  "(string \<Rightarrow> js_error + url) \<Rightarrow> (query \<Rightarrow> reply) \<Rightarrow> form_state \<times> app_state
     \<Rightarrow> form_state \<times> app_state" where
  "handleSubmit new_URL remote s =
     (case s of (form, app) \<Rightarrow>
        (case handleSubmit_begin new_URL form of
           (form1, None) \<Rightarrow> (form1, app)
         | (form1, Some q) \<Rightarrow> handleSubmit_resolve (remote q) (form1, app)))"

section \<open>Component Fact: voting (lines 286 to 299)\<close>

text \<open>
  \<open>handleVote\<close> up to its \<open>await\<close>, for the fact \<open>f\<close> the component was rendered with:
  the flag \<open>isUpdating\<close> of the component is set and the update is sent.
\<close>

definition handleVote_begin :: "counter \<Rightarrow> fact \<Rightarrow> bool \<times> query" where
  "handleVote_begin columnName f =
     (True,
      eq_filter (EqId (fact_id f))
        (from_table ''facts''
           (UpdateReturning columnName (counter_value columnName f + 1))))"

text \<open>
  After the \<open>await\<close>: the flag is cleared and, without error, the list is mapped.
  \<open>f.id\<close> in the callback throws on an entry that is \<open>undefined\<close>.
\<close>

definition patch_entry :: "fact \<Rightarrow> fact list \<Rightarrow> entry \<Rightarrow> js_error + entry" where
  "patch_entry f updatedFact e =
     (case e of
        None \<Rightarrow> Inl TypeError
      | Some g \<Rightarrow> Inr (if fact_id g = fact_id f then first_row updatedFact else Some g))"

definition handleVote_resolve ::
  "fact \<Rightarrow> reply \<Rightarrow> app_state \<Rightarrow> js_error + bool \<times> app_state" where
  "handleVote_resolve f rep app =
     (case rep of
        Inl error \<Rightarrow> Inr (False, app)
      | Inr updatedFact \<Rightarrow>
          (case js_map (patch_entry f updatedFact) (facts app) of
             Inl e \<Rightarrow> Inl e
           | Inr fs \<Rightarrow> Inr (False, app\<lparr>facts := fs\<rparr>)))"

definition handleVote ::
  "(query \<Rightarrow> reply) \<Rightarrow> counter \<Rightarrow> fact \<Rightarrow> app_state \<Rightarrow> js_error + bool \<times> app_state" where
  "handleVote remote columnName f app =
     (case handleVote_begin columnName f of
        (updating, q) \<Rightarrow> handleVote_resolve f (remote q) app)"

section \<open>One client and the store\<close>

text \<open>
  The remote as a client sees it when every request reaches the store \<open>db\<close> and is
  answered: the reply of \<open>run\<close>.
\<close>

definition served :: "fact list \<Rightarrow> query \<Rightarrow> reply" where
  "served db q = snd (run q db)"

text \<open>
  A whole exchange of one client with the store: the handler up to its \<open>await\<close>, the
  store executing the query, the handler's continuation on the reply. \<open>fetch_round\<close>
  is a feed fetch, \<open>vote_round c f\<close> a click on button \<open>c\<close> of the rendered fact \<open>f\<close>.
  Several clients are several views threaded through the same store.
\<close>

definition fetch_round :: "app_state \<times> fact list \<Rightarrow> app_state \<times> fact list" where
  "fetch_round s =
     (case s of (app, db) \<Rightarrow>
        (case getFacts_begin app of (app1, q) \<Rightarrow>
           (case run q db of (db', rep) \<Rightarrow> (getFacts_resolve rep app1, db'))))"

definition vote_round ::
  "counter \<Rightarrow> fact \<Rightarrow> app_state \<times> fact list \<Rightarrow> app_state \<times> fact list" where
  "vote_round c f s =
     (case s of (app, db) \<Rightarrow>
        (case handleVote_begin c f of (u, q) \<Rightarrow>
           (case run q db of (db', rep) \<Rightarrow>
              (case handleVote_resolve f rep app of
                 Inr (u', app') \<Rightarrow> (app', db')
               | Inl e \<Rightarrow> (app, db')))))"

section \<open>Initial state and sample data\<close>

text \<open>The arguments of the \<open>useState\<close> calls of \<open>App\<close> and \<open>NewFactForm\<close>.\<close>

definition initial_app :: app_state where
  "initial_app =
     \<lparr>showForm = False, facts = [], isLoading = False, currentCategory = ''all'',
      alerts = []\<rparr>"

definition initial_form :: form_state where
  "initial_form =
     \<lparr>form_text = [], form_source = [], form_category = [], isUploading = False\<rparr>"

text \<open>Rows, a store, a filled form and parser results for the concrete instances below.\<close>

definition bats :: fact where
  "bats =
     \<lparr>fact_id = 7, fact_text = ''Bats are blind'', fact_source = ''https://example.com'',
      fact_category = ''science'', votesInteresting = 5, votesMindblowing = 1,
      votesFalse = 2\<rparr>"

definition rome :: fact where
  "rome =
     \<lparr>fact_id = 4, fact_text = ''Rome was founded in 753 BC'',
      fact_source = ''https://example.com'', fact_category = ''history'',
      votesInteresting = 1, votesMindblowing = 0, votesFalse = 0\<rparr>"

definition moon :: fact where
  "moon =
     \<lparr>fact_id = 3, fact_text = ''The Moon drifts away from the Earth'',
      fact_source = ''https://example.com'', fact_category = ''science'',
      votesInteresting = 2, votesMindblowing = 4, votesFalse = 0\<rparr>"

definition flat :: fact where
  "flat =
     \<lparr>fact_id = 9, fact_text = ''The Earth is flat'', fact_source = ''https://example.com'',
      fact_category = ''science'', votesInteresting = 1, votesMindblowing = 0,
      votesFalse = 9\<rparr>"

definition sample_store :: "fact list" where
  "sample_store = [bats, rome, moon]"

definition bats_form :: form_state where
  "bats_form =
     \<lparr>form_text = ''Bats are blind'', form_source = ''https://example.com'',
      form_category = ''science'', isUploading = False\<rparr>"

text \<open>
  What the platform's \<open>new URL\<close> answers on the three sources used below: an https
  address, an ftp address, and a word that is no absolute URL. The theorems hold for
  every parser; this one only instantiates them.
\<close>

definition sample_URL :: "string \<Rightarrow> js_error + url" where
  "sample_URL s =
     (if s = ''https://example.com'' then Inr \<lparr>protocol = ''https:''\<rparr>
      else if s = ''ftp://example.com'' then Inr \<lparr>protocol = ''ftp:''\<rparr>
      else Inl TypeError)"

section \<open>Lemmas about the handlers\<close>

lemma find_category_None:
  "(List.find (\<lambda>cat. name cat = c) CATEGORIES = None) = (c \<notin> set (map name CATEGORIES))"
  by (auto simp: find_None_iff)

lemma Fact_disputed_span:
  "Fact f = Inr v \<Longrightarrow> disputed_span v = isDisputed f"
  by (auto simp: Fact_def split: option.splits)

lemma getFacts_query_eq:
  "getFacts_query c =
     \<lparr>q_table = ''facts'', q_action = SelectAll,
      q_filters = (if c \<noteq> ''all'' then [EqCategory c] else []),
      q_order = Some (VotesInteresting, True), q_limit = Some 100\<rparr>"
  by (simp add: getFacts_query_def from_table_def eq_filter_def order_by_def limit_to_def)

lemma run_getFacts_query:
  "run (getFacts_query c) db =
     (db, Inr (take 100 (sort_key votesInteresting
                 (filter (\<lambda>r. c \<noteq> ''all'' \<longrightarrow> fact_category r = c) db))))"
proof -
  have cv: "counter_value VotesInteresting = votesInteresting"
    by (rule ext) simp
  show ?thesis
    by (simp add: getFacts_query_eq run_def limited_def ordered_def selected_def [abs_def] cv)
qed

lemma getFacts_success:
  "getFacts_resolve (Inr rows) st = st\<lparr>facts := map Some rows, isLoading := False\<rparr>"
  by (simp add: getFacts_resolve_def)


section \<open>Rendering: the disputed marker\<close>

text \<open>
  C1. The DISPUTED marker of a fact is shown exactly when
  \<open>votesInteresting + votesMindblowing < votesFalse\<close>. The classification is computed
  from the record by every render of the fact: whenever the render produces a view, the
  marker in that view is the comparison of the three counters of the record rendered.
  The record type \<open>fact\<close> has no field for it.
\<close>

theorem disputed_iff_votes:
  "isDisputed f = (votesInteresting f + votesMindblowing f < votesFalse f)
   \<and> (\<forall>v. Fact f = Inr v \<longrightarrow>
          disputed_span v = (votesInteresting f + votesMindblowing f < votesFalse f))"
  using Fact_disputed_span [of f] by (simp add: isDisputed_def)

theorem disputed_iff_votes_witness:
  "Fact flat = Inr \<lparr>disputed_span = True, shown_text = ''The Earth is flat'',
       href = ''https://example.com'', backgroundColor = ''#16a34a'', tag = ''science'',
       button_counts = (1, 0, 9)\<rparr>
   \<and> isDisputed flat \<and> \<not> isDisputed bats"
  using disputed_iff_votes [of flat] disputed_iff_votes [of bats]
  by (simp add: flat_def bats_def Fact_def CATEGORIES_def)

section \<open>Feed fetch\<close>





section \<open>Submission\<close>

lemma invalid_url:
  "(\<not> isValidHttpUrl new_URL s) =
     (\<forall>u. new_URL s = Inr u \<longrightarrow> protocol u \<noteq> ''http:'' \<and> protocol u \<noteq> ''https:'')"
  by (auto simp: isValidHttpUrl_def split: sum.splits)

lemma handleSubmit_valid:
  assumes "form_text form \<noteq> []" and "isValidHttpUrl new_URL (form_source form)"
    and "form_category form \<noteq> []" and "length (form_text form) \<le> 1000"
  shows "handleSubmit_begin new_URL form =
     (form\<lparr>isUploading := True\<rparr>,
      Some (from_table ''facts''
        (InsertReturning
           [\<lparr>new_text = form_text form, new_source = form_source form,
             new_category = form_category form\<rparr>])))"
    and "handleSubmit new_URL remote (form, app) =
     handleSubmit_resolve
       (remote (from_table ''facts''
          (InsertReturning
             [\<lparr>new_text = form_text form, new_source = form_source form,
               new_category = form_category form\<rparr>])))
       (form\<lparr>isUploading := True\<rparr>, app)"
  using assms by (simp_all add: handleSubmit_def handleSubmit_begin_def)

lemma handleSubmit_resolve_success:
  "handleSubmit_resolve (Inr rows) (form, app) =
     (\<lparr>form_text = [], form_source = [], form_category = [], isUploading = False\<rparr>,
      app\<lparr>facts := first_row rows # facts app, showForm := False\<rparr>)"
  by (simp add: handleSubmit_resolve_def)

lemma handleSubmit_resolve_failure:
  "handleSubmit_resolve (Inl e) (form, app) =
     (\<lparr>form_text = [], form_source = [], form_category = [], isUploading = False\<rparr>,
      app\<lparr>showForm := False\<rparr>)"
  by (simp add: handleSubmit_resolve_def)

text \<open>
  C4. When the text is empty, or the source does not parse to a URL whose protocol is
  \<open>http:\<close> or \<open>https:\<close> (the parser throws, or the protocol is another one), or the
  category is empty, or the text is longer than 1000, \<open>handleSubmit\<close> sends no insert
  and changes nothing: the visible list, the three inputs, the form's visibility, the
  uploading flag and the log of alerts are those of before.
\<close>

theorem invalid_submission_noop:
  assumes "form_text form = []
     \<or> (\<forall>u. new_URL (form_source form) = Inr u \<longrightarrow>
            protocol u \<noteq> ''http:'' \<and> protocol u \<noteq> ''https:'')
     \<or> form_category form = []
     \<or> 1000 < length (form_text form)"
  shows "snd (handleSubmit_begin new_URL form) = None
     \<and> handleSubmit new_URL remote (form, app) = (form, app)"
proof -
  from assms have "\<not> (form_text form \<noteq> [] \<and> isValidHttpUrl new_URL (form_source form)
         \<and> form_category form \<noteq> [] \<and> length (form_text form) \<le> 1000)"
    using invalid_url [of new_URL "form_source form"] by auto
  then have "handleSubmit_begin new_URL form = (form, None)"
    unfolding handleSubmit_begin_def by (rule if_not_P)
  then show ?thesis
    by (simp add: handleSubmit_def)
qed

theorem invalid_submission_noop_witness:
  "handleSubmit sample_URL (served sample_store)
       (bats_form\<lparr>form_text := replicate 1001 CHR ''a''\<rparr>, initial_app)
     = (bats_form\<lparr>form_text := replicate 1001 CHR ''a''\<rparr>, initial_app)
   \<and> handleSubmit sample_URL (served sample_store) (bats_form\<lparr>form_text := []\<rparr>, initial_app)
     = (bats_form\<lparr>form_text := []\<rparr>, initial_app)
   \<and> handleSubmit sample_URL (served sample_store)
       (bats_form\<lparr>form_source := ''ftp://example.com''\<rparr>, initial_app)
     = (bats_form\<lparr>form_source := ''ftp://example.com''\<rparr>, initial_app)
   \<and> handleSubmit sample_URL (served sample_store)
       (bats_form\<lparr>form_source := ''example''\<rparr>, initial_app)
     = (bats_form\<lparr>form_source := ''example''\<rparr>, initial_app)
   \<and> handleSubmit sample_URL (served sample_store)
       (bats_form\<lparr>form_category := []\<rparr>, initial_app)
     = (bats_form\<lparr>form_category := []\<rparr>, initial_app)"
proof -
  have long: "1000 < length (form_text (bats_form\<lparr>form_text := replicate 1001 CHR ''a''\<rparr>))"
    by simp
  have empty: "form_text (bats_form\<lparr>form_text := []\<rparr>) = []"
    by simp
  have ftp: "\<forall>u. sample_URL (form_source (bats_form\<lparr>form_source := ''ftp://example.com''\<rparr>))
        = Inr u \<longrightarrow> protocol u \<noteq> ''http:'' \<and> protocol u \<noteq> ''https:''"
    by (auto simp: sample_URL_def)
  have bad: "\<forall>u. sample_URL (form_source (bats_form\<lparr>form_source := ''example''\<rparr>)) = Inr u
      \<longrightarrow> protocol u \<noteq> ''http:'' \<and> protocol u \<noteq> ''https:''"
    by (simp add: sample_URL_def)
  have nocat: "form_category (bats_form\<lparr>form_category := []\<rparr>) = []"
    by simp
  show ?thesis
    using long empty ftp bad nocat
      invalid_submission_noop [of "bats_form\<lparr>form_text := replicate 1001 CHR ''a''\<rparr>"
        sample_URL "served sample_store" initial_app]
      invalid_submission_noop [of "bats_form\<lparr>form_text := []\<rparr>"
        sample_URL "served sample_store" initial_app]
      invalid_submission_noop [of "bats_form\<lparr>form_source := ''ftp://example.com''\<rparr>"
        sample_URL "served sample_store" initial_app]
      invalid_submission_noop [of "bats_form\<lparr>form_source := ''example''\<rparr>"
        sample_URL "served sample_store" initial_app]
      invalid_submission_noop [of "bats_form\<lparr>form_category := []\<rparr>"
        sample_URL "served sample_store" initial_app]
    by blast
qed

text \<open>
  C5. When the four checks pass, the insert of \<open>{text, source, category}\<close> is sent with
  the uploading flag set. When the reply carries rows, its first row is put in front of
  the visible list as it is when the reply arrives, the entries of before following in
  their order; the three inputs are emptied and the form is closed.
\<close>

theorem submission_success:
  assumes "form_text form \<noteq> []" and "isValidHttpUrl new_URL (form_source form)"
    and "form_category form \<noteq> []" and "length (form_text form) \<le> 1000"
    and "remote (from_table ''facts''
          (InsertReturning
             [\<lparr>new_text = form_text form, new_source = form_source form,
               new_category = form_category form\<rparr>])) = Inr (row # rest)"
  shows "handleSubmit_begin new_URL form =
     (form\<lparr>isUploading := True\<rparr>,
      Some (from_table ''facts''
        (InsertReturning
           [\<lparr>new_text = form_text form, new_source = form_source form,
             new_category = form_category form\<rparr>])))
   \<and> handleSubmit_resolve (Inr (row # rest)) (form', app') =
     (\<lparr>form_text = [], form_source = [], form_category = [], isUploading = False\<rparr>,
      app'\<lparr>facts := Some row # facts app', showForm := False\<rparr>)
   \<and> handleSubmit new_URL remote (form, app) =
     (\<lparr>form_text = [], form_source = [], form_category = [], isUploading = False\<rparr>,
      app\<lparr>facts := Some row # facts app, showForm := False\<rparr>)"
  using assms(5)
  by (simp add: handleSubmit_valid [OF assms(1-4)] handleSubmit_resolve_success first_row_def)

theorem submission_success_witness:
  "handleSubmit sample_URL (served sample_store)
       (bats_form, initial_app\<lparr>showForm := True, facts := [Some rome, Some moon]\<rparr>)
     = (initial_form,
        initial_app\<lparr>facts :=
          [Some \<lparr>fact_id = 8, fact_text = ''Bats are blind'',
                 fact_source = ''https://example.com'', fact_category = ''science'',
                 votesInteresting = 0, votesMindblowing = 0, votesFalse = 0\<rparr>,
           Some rome, Some moon]\<rparr>)"
proof -
  have t: "form_text bats_form \<noteq> []"
    by (simp add: bats_form_def)
  have u: "isValidHttpUrl sample_URL (form_source bats_form)"
    by (simp add: bats_form_def isValidHttpUrl_def sample_URL_def)
  have c: "form_category bats_form \<noteq> []"
    by (simp add: bats_form_def)
  have l: "length (form_text bats_form) \<le> 1000"
    by (simp add: bats_form_def)
  have r: "served sample_store (from_table ''facts''
          (InsertReturning
             [\<lparr>new_text = form_text bats_form, new_source = form_source bats_form,
               new_category = form_category bats_form\<rparr>])) =
       Inr (\<lparr>fact_id = 8, fact_text = ''Bats are blind'',
                 fact_source = ''https://example.com'', fact_category = ''science'',
                 votesInteresting = 0, votesMindblowing = 0, votesFalse = 0\<rparr> # [])"
    by (simp add: served_def run_def from_table_def next_id_def sample_store_def bats_def
        rome_def moon_def bats_form_def Let_def)
  show ?thesis
    using submission_success [where remote = "served sample_store" and form = bats_form
        and new_URL = sample_URL, OF t u c l r]
    by (simp add: initial_form_def initial_app_def)
qed

text \<open>
  C6. When the four checks pass and the reply to the insert is an error, the visible
  list is the one of before, the three inputs are emptied all the same and the form is
  closed; the log of alerts does not grow.
\<close>

theorem submission_failure:
  assumes "form_text form \<noteq> []" and "isValidHttpUrl new_URL (form_source form)"
    and "form_category form \<noteq> []" and "length (form_text form) \<le> 1000"
    and "remote (from_table ''facts''
          (InsertReturning
             [\<lparr>new_text = form_text form, new_source = form_source form,
               new_category = form_category form\<rparr>])) = Inl e"
  shows "handleSubmit_resolve (Inl e) (form', app') =
     (\<lparr>form_text = [], form_source = [], form_category = [], isUploading = False\<rparr>,
      app'\<lparr>showForm := False\<rparr>)
   \<and> handleSubmit new_URL remote (form, app) =
     (\<lparr>form_text = [], form_source = [], form_category = [], isUploading = False\<rparr>,
      app\<lparr>showForm := False\<rparr>)
   \<and> facts (snd (handleSubmit new_URL remote (form, app))) = facts app
   \<and> alerts (snd (handleSubmit new_URL remote (form, app))) = alerts app"
  using assms(5)
  by (simp add: handleSubmit_valid [OF assms(1-4)] handleSubmit_resolve_failure)

theorem submission_failure_witness:
  "handleSubmit sample_URL (\<lambda>q. Inl NetworkError)
       (bats_form, initial_app\<lparr>showForm := True, facts := [Some rome, Some moon]\<rparr>)
     = (initial_form, initial_app\<lparr>facts := [Some rome, Some moon]\<rparr>)"
proof -
  have t: "form_text bats_form \<noteq> []"
    by (simp add: bats_form_def)
  have u: "isValidHttpUrl sample_URL (form_source bats_form)"
    by (simp add: bats_form_def isValidHttpUrl_def sample_URL_def)
  have c: "form_category bats_form \<noteq> []"
    by (simp add: bats_form_def)
  have l: "length (form_text bats_form) \<le> 1000"
    by (simp add: bats_form_def)
  have r: "(\<lambda>q. Inl NetworkError) (from_table ''facts''
          (InsertReturning
             [\<lparr>new_text = form_text bats_form, new_source = form_source bats_form,
               new_category = form_category bats_form\<rparr>])) = Inl NetworkError"
    by simp
  show ?thesis
    using submission_failure [where remote = "\<lambda>q. Inl NetworkError" and form = bats_form
        and new_URL = sample_URL, OF t u c l r]
    by (simp add: initial_form_def initial_app_def)
qed

section \<open>Voting\<close>

lemma first_row_Cons: "first_row (r # rs) = Some r"
  by (simp add: first_row_def)

lemma patch_entry_simps:
  "patch_entry f rows None = Inl TypeError"
  "patch_entry f rows (Some g) =
     Inr (if fact_id g = fact_id f then first_row rows else Some g)"
  by (simp_all add: patch_entry_def)

lemma js_map_patch:
  "js_map (patch_entry f rows) es =
     (if None \<in> set es then Inl TypeError
      else Inr (map (\<lambda>e. if map_option fact_id e = Some (fact_id f) then first_row rows
                         else e) es))"
proof (induction es)
  case Nil
  show ?case by simp
next
  case (Cons e es)
  show ?case
  proof (cases e)
    case None
    then show ?thesis
      by (simp add: patch_entry_simps)
  next
    case (Some g)
    then show ?thesis
      by (simp add: Cons.IH patch_entry_simps)
  qed
qed

lemma handleVote_query:
  "snd (handleVote_begin c f) =
     \<lparr>q_table = ''facts'', q_action = UpdateReturning c (counter_value c f + 1),
      q_filters = [EqId (fact_id f)], q_order = None, q_limit = None\<rparr>"
  by (simp add: handleVote_begin_def eq_filter_def from_table_def)

lemma run_vote:
  "run (snd (handleVote_begin c f)) db =
     (map (\<lambda>r. if fact_id r = fact_id f then set_counter c (counter_value c f + 1) r
                else r) db,
      Inr (map (set_counter c (counter_value c f + 1))
             (filter (\<lambda>r. fact_id r = fact_id f) db)))"
  by (simp add: handleVote_query run_def selected_def [abs_def])

lemma handleVote_success:
  "None \<notin> set (facts app) \<Longrightarrow>
   handleVote_resolve f (Inr rows) app =
     Inr (False,
          app\<lparr>facts := map (\<lambda>e. if map_option fact_id e = Some (fact_id f)
                                 then first_row rows else e) (facts app)\<rparr>)"
  by (simp add: handleVote_resolve_def js_map_patch)

text \<open>
  C7. A vote on the rendered fact \<open>f\<close> with counter \<open>c\<close> sends an update of the \<open>facts\<close>
  collection that writes to \<open>c\<close> the value \<open>f\<close> holds for \<open>c\<close> plus 1, filtered on the
  identifier of \<open>f\<close>. When the reply carries a row, every entry of the visible list with
  that identifier becomes this row. When the store holds for this identifier the row
  the client holds, the row returned is \<open>f\<close> with \<open>c\<close> raised by 1 and nothing else
  changed, and this is what the list then shows. For every remote: when its reply to
  the update sent carries a row, the whole of \<open>handleVote\<close> ends with every entry of
  that identifier replaced by the row of the reply, whatever the row holds; when its
  reply is an error, \<open>handleVote\<close> ends with the state of before.
\<close>

theorem vote_writes_increment:
  "snd (handleVote_begin c f) =
     \<lparr>q_table = ''facts'', q_action = UpdateReturning c (counter_value c f + 1),
      q_filters = [EqId (fact_id f)], q_order = None, q_limit = None\<rparr>
   \<and> (None \<notin> set (facts app) \<longrightarrow>
        handleVote_resolve f (Inr (row # rest)) app =
          Inr (False,
               app\<lparr>facts := map (\<lambda>e. if map_option fact_id e = Some (fact_id f)
                                      then Some row else e) (facts app)\<rparr>))
   \<and> (filter (\<lambda>r. fact_id r = fact_id f) db = [f] \<longrightarrow>
        served db (snd (handleVote_begin c f)) =
          Inr [set_counter c (counter_value c f + 1) f])
   \<and> (filter (\<lambda>r. fact_id r = fact_id f) db = [f] \<and> None \<notin> set (facts app) \<longrightarrow>
        handleVote (served db) c f app =
          Inr (False,
               app\<lparr>facts := map (\<lambda>e. if map_option fact_id e = Some (fact_id f)
                                      then Some (set_counter c (counter_value c f + 1) f)
                                      else e) (facts app)\<rparr>))
   \<and> (remote (snd (handleVote_begin c f)) = Inr (row # rest) \<and> None \<notin> set (facts app) \<longrightarrow>
        handleVote remote c f app =
          Inr (False,
               app\<lparr>facts := map (\<lambda>e. if map_option fact_id e = Some (fact_id f)
                                      then Some row else e) (facts app)\<rparr>))
   \<and> (remote (snd (handleVote_begin c f)) = Inl err \<longrightarrow>
        handleVote remote c f app = Inr (False, app))"
proof -
  have q: "snd (handleVote_begin c f) =
     \<lparr>q_table = ''facts'', q_action = UpdateReturning c (counter_value c f + 1),
      q_filters = [EqId (fact_id f)], q_order = None, q_limit = None\<rparr>"
    by (rule handleVote_query)
  have patch: "None \<notin> set (facts app) \<longrightarrow>
        handleVote_resolve f (Inr (row # rest)) app =
          Inr (False,
               app\<lparr>facts := map (\<lambda>e. if map_option fact_id e = Some (fact_id f)
                                      then Some row else e) (facts app)\<rparr>)"
    using handleVote_success [of app f "row # rest", unfolded first_row_Cons] by simp
  have rep: "filter (\<lambda>r. fact_id r = fact_id f) db = [f] \<longrightarrow>
        served db (snd (handleVote_begin c f)) =
          Inr [set_counter c (counter_value c f + 1) f]"
    by (simp add: served_def run_vote)
  have whole: "filter (\<lambda>r. fact_id r = fact_id f) db = [f] \<and> None \<notin> set (facts app) \<longrightarrow>
        handleVote (served db) c f app =
          Inr (False,
               app\<lparr>facts := map (\<lambda>e. if map_option fact_id e = Some (fact_id f)
                                      then Some (set_counter c (counter_value c f + 1) f)
                                      else e) (facts app)\<rparr>)"
  proof
    assume h: "filter (\<lambda>r. fact_id r = fact_id f) db = [f] \<and> None \<notin> set (facts app)"
    have "handleVote (served db) c f app =
        handleVote_resolve f (served db (snd (handleVote_begin c f))) app"
      by (simp add: handleVote_def split: prod.splits)
    also have "\<dots> = handleVote_resolve f (Inr [set_counter c (counter_value c f + 1) f]) app"
      using h rep by simp
    finally show "handleVote (served db) c f app =
          Inr (False,
               app\<lparr>facts := map (\<lambda>e. if map_option fact_id e = Some (fact_id f)
                                      then Some (set_counter c (counter_value c f + 1) f)
                                      else e) (facts app)\<rparr>)"
      using h handleVote_success [of app f "[set_counter c (counter_value c f + 1) f]",
          unfolded first_row_Cons]
      by simp
  qed
  have sent: "\<And>r. handleVote r c f app =
      handleVote_resolve f (r (snd (handleVote_begin c f))) app"
    by (simp add: handleVote_def split: prod.splits)
  have any: "remote (snd (handleVote_begin c f)) = Inr (row # rest) \<and> None \<notin> set (facts app) \<longrightarrow>
        handleVote remote c f app =
          Inr (False,
               app\<lparr>facts := map (\<lambda>e. if map_option fact_id e = Some (fact_id f)
                                      then Some row else e) (facts app)\<rparr>)"
  proof
    assume h: "remote (snd (handleVote_begin c f)) = Inr (row # rest) \<and> None \<notin> set (facts app)"
    then have "handleVote remote c f app = handleVote_resolve f (Inr (row # rest)) app"
      by (simp add: sent)
    then show "handleVote remote c f app =
          Inr (False,
               app\<lparr>facts := map (\<lambda>e. if map_option fact_id e = Some (fact_id f)
                                      then Some row else e) (facts app)\<rparr>)"
      using h patch by simp
  qed
  have failed: "remote (snd (handleVote_begin c f)) = Inl err \<longrightarrow>
        handleVote remote c f app = Inr (False, app)"
    by (simp add: sent handleVote_resolve_def)
  show ?thesis
    using q patch rep whole any failed by (intro conjI)
qed

theorem vote_writes_increment_witness:
  "filter (\<lambda>r. fact_id r = fact_id bats) sample_store = [bats]
   \<and> votesFalse bats = 2
   \<and> handleVote (served sample_store) VotesFalse bats
       (initial_app\<lparr>facts := [Some rome, Some moon, Some bats]\<rparr>)
     = Inr (False,
        initial_app\<lparr>facts := [Some rome, Some moon, Some (bats\<lparr>votesFalse := 3\<rparr>)]\<rparr>)
   \<and> handleVote (\<lambda>q. Inr [bats\<lparr>votesInteresting := 8, votesFalse := 3\<rparr>]) VotesFalse bats
       (initial_app\<lparr>facts := [Some rome, Some moon, Some bats]\<rparr>)
     = Inr (False,
        initial_app\<lparr>facts :=
          [Some rome, Some moon, Some (bats\<lparr>votesInteresting := 8, votesFalse := 3\<rparr>)]\<rparr>)
   \<and> handleVote (\<lambda>q. Inl NetworkError) VotesFalse bats
       (initial_app\<lparr>facts := [Some rome, Some moon, Some bats]\<rparr>)
     = Inr (False, initial_app\<lparr>facts := [Some rome, Some moon, Some bats]\<rparr>)"
proof -
  let ?app = "initial_app\<lparr>facts := [Some rome, Some moon, Some bats]\<rparr>"
  let ?row = "bats\<lparr>votesInteresting := 8, votesFalse := 3\<rparr>"
  have one: "filter (\<lambda>r. fact_id r = fact_id bats) sample_store = [bats]"
    by (simp add: sample_store_def bats_def rome_def moon_def)
  have defd: "None \<notin> set (facts ?app)"
    by simp
  have two: "votesFalse bats = 2"
    by (simp add: bats_def)
  have stored: "handleVote (served sample_store) VotesFalse bats ?app
     = Inr (False,
        initial_app\<lparr>facts := [Some rome, Some moon, Some (bats\<lparr>votesFalse := 3\<rparr>)]\<rparr>)"
    using one defd
      vote_writes_increment [where c = VotesFalse and f = bats and app = ?app
        and db = sample_store and remote = "served sample_store" and row = bats
        and rest = "[]" and err = NetworkError]
    by (simp add: bats_def rome_def moon_def)
  have other: "handleVote (\<lambda>q. Inr [?row]) VotesFalse bats ?app
     = Inr (False, initial_app\<lparr>facts := [Some rome, Some moon, Some ?row]\<rparr>)"
    using defd
      vote_writes_increment [where c = VotesFalse and f = bats and app = ?app
        and db = sample_store and remote = "\<lambda>q. Inr [?row]" and row = ?row
        and rest = "[]" and err = NetworkError]
    by (simp add: bats_def rome_def moon_def)
  have lost: "handleVote (\<lambda>q. Inl NetworkError) VotesFalse bats ?app = Inr (False, ?app)"
    using vote_writes_increment [where c = VotesFalse and f = bats and app = ?app
        and db = sample_store and remote = "\<lambda>q. Inl NetworkError" and row = bats
        and rest = "[]" and err = NetworkError]
    by simp
  show ?thesis
    using one two stored other lost by (intro conjI)
qed

text \<open>
  C8. When the continuation of a vote on \<open>f\<close> completes on a reply with rows, the
  visible list has the length it had, every position whose entry has another identifier
  holds the entry it held, every position whose entry has the identifier of \<open>f\<close> holds
  index 0 of the reply, and no other part of the state differs. The continuation
  completes exactly when no entry of the list is \<open>undefined\<close>. On an error reply the
  state is the one of before, the log of alerts included.
\<close>

theorem vote_frame:
  "(\<forall>u app'. handleVote_resolve f (Inr rows) app = Inr (u, app') \<longrightarrow>
        length (facts app') = length (facts app)
      \<and> (\<forall>k < length (facts app).
            map_option fact_id (facts app ! k) \<noteq> Some (fact_id f) \<longrightarrow>
            facts app' ! k = facts app ! k)
      \<and> (\<forall>k < length (facts app).
            map_option fact_id (facts app ! k) = Some (fact_id f) \<longrightarrow>
            facts app' ! k = first_row rows)
      \<and> app'\<lparr>facts := facts app\<rparr> = app)
   \<and> ((\<exists>u app'. handleVote_resolve f (Inr rows) app = Inr (u, app'))
        = (None \<notin> set (facts app)))
   \<and> handleVote_resolve f (Inl e) app = Inr (False, app)"
proof -
  have frame: "\<forall>u app'. handleVote_resolve f (Inr rows) app = Inr (u, app') \<longrightarrow>
        length (facts app') = length (facts app)
      \<and> (\<forall>k < length (facts app).
            map_option fact_id (facts app ! k) \<noteq> Some (fact_id f) \<longrightarrow>
            facts app' ! k = facts app ! k)
      \<and> (\<forall>k < length (facts app).
            map_option fact_id (facts app ! k) = Some (fact_id f) \<longrightarrow>
            facts app' ! k = first_row rows)
      \<and> app'\<lparr>facts := facts app\<rparr> = app"
  proof (intro allI impI)
    fix u app'
    assume ok: "handleVote_resolve f (Inr rows) app = Inr (u, app')"
    then have fs: "facts app' =
        map (\<lambda>e. if map_option fact_id e = Some (fact_id f) then first_row rows else e)
          (facts app)"
      and rest: "app' = app\<lparr>facts := facts app'\<rparr>"
      by (auto simp: handleVote_resolve_def js_map_patch split: if_splits)
    have len: "length (facts app') = length (facts app)"
      by (simp add: fs)
    have other: "\<forall>k < length (facts app).
            map_option fact_id (facts app ! k) \<noteq> Some (fact_id f) \<longrightarrow>
            facts app' ! k = facts app ! k"
      by (auto simp: fs)
    have same: "\<forall>k < length (facts app).
            map_option fact_id (facts app ! k) = Some (fact_id f) \<longrightarrow>
            facts app' ! k = first_row rows"
      by (auto simp: fs)
    have fields: "app'\<lparr>facts := facts app\<rparr> = app"
      by (subst rest) simp
    show "length (facts app') = length (facts app)
      \<and> (\<forall>k < length (facts app).
            map_option fact_id (facts app ! k) \<noteq> Some (fact_id f) \<longrightarrow>
            facts app' ! k = facts app ! k)
      \<and> (\<forall>k < length (facts app).
            map_option fact_id (facts app ! k) = Some (fact_id f) \<longrightarrow>
            facts app' ! k = first_row rows)
      \<and> app'\<lparr>facts := facts app\<rparr> = app"
      using len other same fields by (intro conjI)
  qed
  have total: "(\<exists>u app'. handleVote_resolve f (Inr rows) app = Inr (u, app'))
        = (None \<notin> set (facts app))"
    by (auto simp: handleVote_resolve_def js_map_patch)
  have failed: "handleVote_resolve f (Inl e) app = Inr (False, app)"
    by (simp add: handleVote_resolve_def)
  show ?thesis
    using frame total failed by (intro conjI)
qed

theorem vote_frame_witness:
  "(\<exists>u app'. handleVote_resolve bats (Inr [bats\<lparr>votesFalse := 3\<rparr>])
       (initial_app\<lparr>facts := [Some rome, Some bats, Some moon]\<rparr>) = Inr (u, app')
       \<and> length (facts app') = 3
       \<and> facts app' ! 0 = Some rome
       \<and> facts app' ! 1 = Some (bats\<lparr>votesFalse := 3\<rparr>)
       \<and> facts app' ! 2 = Some moon)
   \<and> handleVote_resolve bats (Inl NetworkError)
       (initial_app\<lparr>facts := [Some rome, Some bats, Some moon]\<rparr>)
     = Inr (False, initial_app\<lparr>facts := [Some rome, Some bats, Some moon]\<rparr>)"
proof -
  let ?app = "initial_app\<lparr>facts := [Some rome, Some bats, Some moon]\<rparr>"
  let ?rows = "[bats\<lparr>votesFalse := 3\<rparr>]"
  from vote_frame [of bats ?rows ?app NetworkError]
  have ex: "\<exists>u app'. handleVote_resolve bats (Inr ?rows) ?app = Inr (u, app')"
    and fr: "\<forall>u app'. handleVote_resolve bats (Inr ?rows) ?app = Inr (u, app') \<longrightarrow>
        length (facts app') = length (facts ?app)
      \<and> (\<forall>k < length (facts ?app).
            map_option fact_id (facts ?app ! k) \<noteq> Some (fact_id bats) \<longrightarrow>
            facts app' ! k = facts ?app ! k)
      \<and> (\<forall>k < length (facts ?app).
            map_option fact_id (facts ?app ! k) = Some (fact_id bats) \<longrightarrow>
            facts app' ! k = first_row ?rows)
      \<and> app'\<lparr>facts := facts ?app\<rparr> = ?app"
    and fl: "handleVote_resolve bats (Inl NetworkError) ?app = Inr (False, ?app)"
    by simp_all
  from ex obtain u app' where r: "handleVote_resolve bats (Inr ?rows) ?app = Inr (u, app')"
    by blast
  from fr r have len: "length (facts app') = 3"
    and o: "\<forall>k < 3. map_option fact_id (facts ?app ! k) \<noteq> Some (fact_id bats) \<longrightarrow>
            facts app' ! k = facts ?app ! k"
    and s: "\<forall>k < 3. map_option fact_id (facts ?app ! k) = Some (fact_id bats) \<longrightarrow>
            facts app' ! k = first_row ?rows"
    by simp_all
  from o have e0: "facts app' ! 0 = Some rome" and e2: "facts app' ! 2 = Some moon"
    by (simp_all add: bats_def rome_def moon_def)
  from s have e1: "facts app' ! 1 = Some (bats\<lparr>votesFalse := 3\<rparr>)"
    by (simp add: first_row_def)
  show ?thesis
    using r len e0 e1 e2 fl by blast
qed

section \<open>The counters over time\<close>

lemma run_getFacts_store: "fst (run (getFacts_query c) db) = db"
  by (simp add: run_getFacts_query)

lemma run_insert_store:
  "take (length db) (fst (run (from_table ''facts'' (InsertReturning new)) db)) = db"
  by (simp add: run_def from_table_def Let_def)

lemma counter_value_set_counter:
  "counter_value k (set_counter c v r) = (if k = c then v else counter_value k r)"
  by (cases k; cases c) simp_all

text \<open>
  C9, as stated, fails. Two clients fetch the same row, with \<open>votesFalse = 2\<close>. The
  second votes \<open>votesFalse\<close> twice, so the store and its own list hold 4. The first then
  votes \<open>votesFalse\<close> from its copy, which still holds 2: the value written is 3, and the
  stored counter goes from 4 down to 3. The second client next votes \<open>votesInteresting\<close>;
  the row returned replaces its entry, whose \<open>votesFalse\<close> goes from 4 to 3 on its page.
  Every request of the run is answered without error.
\<close>

theorem stale_vote_lowers_counter:
  "(let (a0, db0) = fetch_round (initial_app, [bats]);
        (b0, db0') = fetch_round (initial_app, db0);
        (b1, db1) = vote_round VotesFalse bats (b0, db0');
        (b2, db2) = vote_round VotesFalse (bats\<lparr>votesFalse := 3\<rparr>) (b1, db1);
        (a1, db3) = vote_round VotesFalse bats (a0, db2);
        (b3, db4) = vote_round VotesInteresting (bats\<lparr>votesFalse := 4\<rparr>) (b2, db3)
    in facts a0 = [Some bats]
       \<and> facts b0 = [Some bats]
       \<and> facts b1 = [Some (bats\<lparr>votesFalse := 3\<rparr>)]
       \<and> facts b2 = [Some (bats\<lparr>votesFalse := 4\<rparr>)]
       \<and> map votesFalse db2 = [4]
       \<and> map votesFalse db3 = [3]
       \<and> map (map_option votesFalse) (facts b2) = [Some 4]
       \<and> map (map_option votesFalse) (facts b3) = [Some 3])"
  by (simp add: fetch_round_def vote_round_def getFacts_begin_def getFacts_query_def
      from_table_def eq_filter_def order_by_def limit_to_def run_def limited_def ordered_def
      selected_def getFacts_resolve_def handleVote_begin_def handleVote_resolve_def
      patch_entry_def first_row_def initial_app_def bats_def)

text \<open>
  C9, amended. A vote on the rendered fact \<open>f\<close> with counter \<open>c\<close> writes one counter:
  the update names \<open>c\<close> alone and its value is the value \<open>f\<close> holds plus 1. In the store
  it touches the rows with the identifier of \<open>f\<close> only, sets their \<open>c\<close> to that value
  and leaves their other two counters as they were. So when no such row holds for \<open>c\<close>
  more than the client's value plus 1, no counter of any stored row decreases. The other
  two operations write no counter of a stored row: a feed fetch leaves the store as it
  is, and a submission only adds rows after those present.
\<close>

theorem vote_raises_local_copy:
  "q_action (snd (handleVote_begin c f)) = UpdateReturning c (counter_value c f + 1)
   \<and> fst (run (snd (handleVote_begin c f)) db) =
       map (\<lambda>r. if fact_id r = fact_id f then set_counter c (counter_value c f + 1) r
                  else r) db
   \<and> (\<forall>r k. counter_value k (set_counter c (counter_value c f + 1) r) =
          (if k = c then counter_value c f + 1 else counter_value k r))
   \<and> ((\<forall>r \<in> set db. fact_id r = fact_id f \<longrightarrow> counter_value c r \<le> counter_value c f + 1)
        \<longrightarrow> list_all2 (\<lambda>r r'. \<forall>k. counter_value k r \<le> counter_value k r')
              db (fst (run (snd (handleVote_begin c f)) db)))
   \<and> fst (run (getFacts_query cat) db) = db
   \<and> take (length db) (fst (run (from_table ''facts'' (InsertReturning new)) db)) = db"
proof -
  let ?v = "counter_value c f + 1"
  let ?db' = "map (\<lambda>r. if fact_id r = fact_id f then set_counter c ?v r else r) db"
  have act: "q_action (snd (handleVote_begin c f)) = UpdateReturning c ?v"
    by (simp add: handleVote_query)
  have st: "fst (run (snd (handleVote_begin c f)) db) = ?db'"
    by (simp add: run_vote)
  have one: "\<forall>r k. counter_value k (set_counter c ?v r) =
          (if k = c then ?v else counter_value k r)"
    by (simp add: counter_value_set_counter)
  have mono: "(\<forall>r \<in> set db. fact_id r = fact_id f \<longrightarrow> counter_value c r \<le> ?v)
        \<longrightarrow> list_all2 (\<lambda>r r'. \<forall>k. counter_value k r \<le> counter_value k r')
              db (fst (run (snd (handleVote_begin c f)) db))"
    unfolding st
    by (auto simp: list_all2_map2 list_all2_same counter_value_set_counter)
  show ?thesis
    using act st one mono run_getFacts_store [of cat db] run_insert_store [of db new]
    by (intro conjI)
qed

theorem vote_raises_local_copy_witness:
  "list_all2 (\<lambda>r r'. \<forall>k. counter_value k r \<le> counter_value k r') sample_store
       (fst (run (snd (handleVote_begin VotesFalse bats)) sample_store))
   \<and> map votesFalse sample_store = [2, 0, 0]
   \<and> map votesFalse (fst (run (snd (handleVote_begin VotesFalse bats)) sample_store))
       = [3, 0, 0]"
proof -
  have h: "\<forall>r \<in> set sample_store. fact_id r = fact_id bats \<longrightarrow>
      counter_value VotesFalse r \<le> counter_value VotesFalse bats + 1"
    by (simp add: sample_store_def bats_def rome_def moon_def)
  note inst = vote_raises_local_copy [where c = VotesFalse and f = bats
      and db = sample_store and cat = "''all''" and new = "[]"]
  from inst h have mono: "list_all2 (\<lambda>r r'. \<forall>k. counter_value k r \<le> counter_value k r')
       sample_store (fst (run (snd (handleVote_begin VotesFalse bats)) sample_store))"
    by blast
  from inst have st: "fst (run (snd (handleVote_begin VotesFalse bats)) sample_store) =
       map (\<lambda>r. if fact_id r = fact_id bats
                then set_counter VotesFalse (counter_value VotesFalse bats + 1) r else r)
         sample_store"
    by blast
  have before: "map votesFalse sample_store = [2, 0, 0]"
    by (simp add: sample_store_def bats_def rome_def moon_def)
  have after: "map votesFalse (fst (run (snd (handleVote_begin VotesFalse bats)) sample_store))
       = [3, 0, 0]"
    unfolding st by (simp add: sample_store_def bats_def rome_def moon_def)
  show ?thesis
    using mono before after by (intro conjI)
qed

section \<open>Rendering: the category tag\<close>

lemma js_map_Inl:
  "x \<in> set xs \<Longrightarrow> g x = Inl e \<Longrightarrow> js_map g xs = Inl TypeError"
proof (induction xs)
  case Nil
  then show ?case by simp
next
  case (Cons y ys)
  have any: "\<And>z. (z :: js_error) = TypeError"
    by (case_tac z) simp
  show ?case
  proof (cases "g y")
    case (Inl a)
    then show ?thesis
      using any [of a] by simp
  next
    case (Inr b)
    with Cons have "js_map g ys = Inl TypeError"
      by auto
    with Inr show ?thesis
      by simp
  qed
qed

lemma category_names:
  "map name CATEGORIES =
     [''technology'', ''science'', ''finance'', ''society'', ''entertainment'', ''health'',
      ''history'', ''news'']"
  by (simp add: CATEGORIES_def)

lemma Fact_TypeError:
  "(Fact f = Inl TypeError) = (fact_category f \<notin> set (map name CATEGORIES))"
  using find_category_None [of "fact_category f"]
  by (auto simp: Fact_def split: option.splits)

text \<open>
  C10. The table has 8 entries with 8 different names. Rendering a fact throws a
  \<open>TypeError\<close> exactly when its category is none of the 8 names, and produces a view
  exactly when it is one of them. A visible list that holds one fact of another category
  does not render at all: \<open>FactList\<close> throws.
\<close>

theorem unknown_category_breaks_render:
  "(Fact f = Inl TypeError) =
     (fact_category f \<notin> {''technology'', ''science'', ''finance'', ''society'',
        ''entertainment'', ''health'', ''history'', ''news''})
   \<and> ((\<exists>v. Fact f = Inr v) =
     (fact_category f \<in> {''technology'', ''science'', ''finance'', ''society'',
        ''entertainment'', ''health'', ''history'', ''news''}))
   \<and> length CATEGORIES = 8 \<and> distinct (map name CATEGORIES)
   \<and> (Some f \<in> set es \<and> fact_category f \<notin> set (map name CATEGORIES)
        \<longrightarrow> FactList es = Inl TypeError)"
proof -
  have names: "set (map name CATEGORIES) =
      {''technology'', ''science'', ''finance'', ''society'',
       ''entertainment'', ''health'', ''history'', ''news''}"
    by (simp add: category_names)
  have a: "(Fact f = Inl TypeError) = (fact_category f \<notin> set (map name CATEGORIES))"
    by (rule Fact_TypeError)
  have b: "(\<exists>v. Fact f = Inr v) = (fact_category f \<in> set (map name CATEGORIES))"
  proof (cases "Fact f")
    case (Inl e)
    then have "Fact f = Inl TypeError"
      by (cases e) simp
    with Inl show ?thesis
      using a by simp
  next
    case (Inr v)
    then show ?thesis
      using a by auto
  qed
  have c: "length CATEGORIES = 8"
    by (simp add: CATEGORIES_def)
  have d: "distinct (map name CATEGORIES)"
    by (simp add: category_names)
  have e: "Some f \<in> set es \<and> fact_category f \<notin> set (map name CATEGORIES)
        \<longrightarrow> FactList es = Inl TypeError"
  proof
    assume h: "Some f \<in> set es \<and> fact_category f \<notin> set (map name CATEGORIES)"
    then have "Fact f = Inl TypeError"
      using a by simp
    then have "js_map (\<lambda>e. case e of None \<Rightarrow> Inl TypeError | Some f \<Rightarrow> Fact f) es
        = Inl TypeError"
      using h js_map_Inl [of "Some f" es
          "\<lambda>e. case e of None \<Rightarrow> Inl TypeError | Some f \<Rightarrow> Fact f" TypeError]
      by simp
    moreover from h have "length es \<noteq> 0"
      by auto
    ultimately show "FactList es = Inl TypeError"
      by (simp add: FactList_def)
  qed
  show ?thesis
    using a b c d e unfolding names by (intro conjI)
qed

theorem unknown_category_breaks_render_witness:
  "Fact (bats\<lparr>fact_category := ''cooking''\<rparr>) = Inl TypeError
   \<and> FactList (facts (getFacts (served [bats\<lparr>fact_category := ''cooking''\<rparr>]) initial_app))
       = Inl TypeError
   \<and> (\<exists>v. Fact bats = Inr v)"
proof -
  let ?f = "bats\<lparr>fact_category := ''cooking''\<rparr>"
  have fs: "facts (getFacts (served [?f]) initial_app) = [Some ?f]"
    by (simp add: getFacts_def getFacts_begin_def served_def run_getFacts_query
        getFacts_success initial_app_def)
  have out: "fact_category ?f \<notin> set (map name CATEGORIES)"
    by (simp add: CATEGORIES_def)
  show ?thesis
    using unknown_category_breaks_render [of ?f "[Some ?f]"]
      unknown_category_breaks_render [of bats] out fs
    by (simp add: bats_def)
qed

end
